theory Spec2Isabelle
  imports
    Complex_Main
    "HOL-Library.AList"
    "HOL-Library.Char_ord"
    "HOL-Library.List_Lexorder"
    "HOL-Library.Product_Lexorder"
begin

section \<open>Values, exceptions and the record model\<close>

text \<open>
  A \<open>datetime\<close> is a point on one time line (an integer count of microseconds). A
  Python \<open>float\<close> is a finite number, an infinity or \<open>nan\<close>: \<open>json.loads\<close>
  reads \<open>NaN\<close> and \<open>Infinity\<close>, and a \<open>float\<close> field takes them. The server
  never computes with a measurement, it only stores it and hands it back, so the finite
  values are carried as real numbers.
\<close>

type_synonym datetime = int

datatype pyfloat = Finite real | PosInf | NegInf | NaN

fun isfinite :: "pyfloat \<Rightarrow> bool" where
  "isfinite (Finite x) = True"
| "isfinite _ = False"

text \<open>
  What \<open>json.loads\<close> can build, and the \<open>datetime\<close> object that
  \<open>on_message\<close> stores back into the decoded payload. A dict is an association
  list read with \<open>map_of\<close>.
\<close>

datatype pyval =
    PNone
  | PBool bool
  | PInt int
  | PFloat pyfloat
  | PStr string
  | PList "pyval list"
  | PDict "(string \<times> pyval) list"
  | PDatetime datetime

text \<open>The fields of \<open>class SensorData(BaseModel)\<close> and of \<open>class SensorReading(BaseModel)\<close>:
  the latter has the same four fields and the database record id (\<open>id\<close> in the source).\<close>

record SensorData =
  sensor_id :: string
  device_id :: string
  timestamp :: datetime
  temp_value :: pyfloat

record SensorReading = SensorData +
  id' :: int

text \<open>One entry of a pydantic validation error: the field and what is wrong with it.\<close>

datatype field_error = Missing | Invalid

type_synonym validation_errors = "(string \<times> field_error) list"

text \<open>
  The exceptions of the program. \<open>MySQLError\<close> is \<open>mysql.connector.Error\<close> with
  its message, \<open>ValidationError\<close> is pydantic's, \<open>RequestValidationError\<close> is the
  one FastAPI answers with status 422, \<open>HTTPException\<close> carries the status code and
  the detail, \<open>OtherException\<close> is any other subclass of \<open>Exception\<close>.
\<close>

datatype exn =
    HTTPException nat string
  | MySQLError string
  | JSONDecodeError
  | UnicodeDecodeError
  | KeyError string
  | TypeError
  | ValueError
  | ValidationError validation_errors
  | RequestValidationError validation_errors
  | OtherException string

text \<open>What the program prints, one constructor for each \<open>print\<close> of the source.\<close>

datatype log_event =
    LogConnectError string
  | LogInsertError string
  | LogRetrieveDataError string
  | LogRetrieveSensorsError string
  | LogReceivedMQTT int SensorData
  | LogReceivedREST int SensorData
  | LogDecodeError
  | LogProcessError exn

section \<open>The storage sink\<close>

text \<open>
  Modelled from the spec: the schema of table \<open>sensor_data\<close> is not part of the
  sources. The table is the list of committed rows in insertion order; the sink assigns
  \<open>next_id\<close> to the row an \<open>INSERT\<close> creates and never hands an identifier out
  twice. \<open>pending\<close> holds the rows written by the open connection's transaction and
  not yet committed, \<open>open_conns\<close> counts the connections that are open,
  \<open>acquired\<close> every connection ever opened, \<open>console\<close> is the printed output.
\<close>

record sink =
  rows :: "SensorReading list"
  next_id :: int
  pending :: "SensorReading list"
  open_conns :: nat
  acquired :: nat
  console :: "log_event list"

text \<open>
  How the database driver behaves during one call. \<open>mysql.connector.connect\<close>
  returns a connection, raises \<open>mysql.connector.Error\<close>, or raises something else
  (an unsupported configuration argument, for instance). Each later step of a call
  either succeeds or raises \<open>mysql.connector.Error\<close> with a message.
\<close>

datatype connect_outcome = Connects | ConnectError string | ConnectRaises string

datatype step = Cursor | Execute | Commit | Fetchall

record driver =
  connecting :: connect_outcome
  failing :: "step \<Rightarrow> string option"

datatype connection = Connection

text \<open>
  \<open>get_db_connection\<close>: the connection, \<open>None\<close> after a printed
  \<open>mysql.connector.Error\<close>; \<open>Inl m\<close> is an exception of another class, with
  \<open>str(e) = m\<close>, which the function does not catch. A new connection starts with an
  empty transaction.
\<close>

definition get_db_connection :: "driver \<Rightarrow> sink \<Rightarrow> (string + connection option) \<times> sink" where
  "get_db_connection d s =
     (case connecting d of
        Connects \<Rightarrow>
          (Inr (Some Connection),
           s\<lparr>pending := [], open_conns := Suc (open_conns s), acquired := Suc (acquired s)\<rparr>)
      | ConnectError e \<Rightarrow> (Inr None, s\<lparr>console := console s @ [LogConnectError e]\<rparr>)
      | ConnectRaises m \<Rightarrow> (Inl m, s))"

text \<open>\<open>connection.close()\<close>: the connection is released and what its transaction had
  not committed is discarded.\<close>

definition close :: "sink \<Rightarrow> sink" where
  "close s = s\<lparr>pending := [], open_conns := open_conns s - 1\<rparr>"

text \<open>The row an \<open>INSERT\<close> of \<open>values = (data.sensor_id, data.device_id,
  data.timestamp, data.temp_value)\<close> creates under identifier \<open>i\<close>. A measurement
  that is not a finite number is kept as it was handed over; whether the server takes
  such a row is part of the driver's behaviour during the call.\<close>

definition stored :: "int \<Rightarrow> SensorData \<Rightarrow> SensorReading" where
  "stored i data =
     \<lparr>sensor_id = sensor_id data, device_id = device_id data,
      timestamp = timestamp data, temp_value = temp_value data, id' = i\<rparr>"

text \<open>
  The \<open>try\<close> block of \<open>insert_sensor_data\<close>: cursor, execute, commit, read
  \<open>lastrowid\<close>, close the cursor and the connection. \<open>Inl e\<close> is a
  \<open>mysql.connector.Error\<close> raised at the first failing step.
\<close>

definition insert_try :: "driver \<Rightarrow> SensorData \<Rightarrow> sink \<Rightarrow> (string + int) \<times> sink" where
  "insert_try d data s =
     (case failing d Cursor of
        Some e \<Rightarrow> (Inl e, s)
      | None \<Rightarrow>
     (case failing d Execute of
        Some e \<Rightarrow> (Inl e, s)
      | None \<Rightarrow>
          let record_id = next_id s;
              s1 = s\<lparr>pending := pending s @ [stored record_id data], next_id := next_id s + 1\<rparr>
          in
     (case failing d Commit of
        Some e \<Rightarrow> (Inl e, s1)
      | None \<Rightarrow>
          let s2 = s1\<lparr>rows := rows s1 @ pending s1, pending := []\<rparr>
          in (Inr record_id, close s2))))"

definition insert_sensor_data :: "driver \<Rightarrow> SensorData \<Rightarrow> sink \<Rightarrow> (exn + int) \<times> sink" where
  "insert_sensor_data d data s =
     (case get_db_connection d s of
        (Inl m, s') \<Rightarrow> (Inl (OtherException m), s')
      | (Inr None, s') \<Rightarrow> (Inl (HTTPException 500 ''Database connection failed''), s')
      | (Inr (Some c), s') \<Rightarrow>
          (case insert_try d data s' of
             (Inr record_id, s'') \<Rightarrow> (Inr record_id, s'')
           | (Inl e, s'') \<Rightarrow>
               (Inl (HTTPException 500 (''Database error: '' @ e)),
                close (s''\<lparr>console := console s'' @ [LogInsertError e]\<rparr>))))"

text \<open>
  \<open>SELECT ... WHERE sensor_id = %s ORDER BY timestamp DESC, id DESC LIMIT %s\<close>:
  the rows of the sensor, the latest first and the larger identifier first among equal
  timestamps, cut after \<open>n\<close> rows. Sorting ascending on the negated pair is the
  descending order on the pair.
\<close>

definition latest_key :: "SensorReading \<Rightarrow> int \<times> int" where
  "latest_key r = (- timestamp r, - id' r)"

definition select_latest :: "string \<Rightarrow> nat \<Rightarrow> SensorReading list \<Rightarrow> SensorReading list" where
  "select_latest sid n rs = take n (sort_key latest_key (filter (\<lambda>r. sensor_id r = sid) rs))"

text \<open>The \<open>try\<close> block of \<open>get_latest_readings\<close>. The server rejects a negative
  \<open>LIMIT\<close> as a syntax error, which the driver raises from \<open>execute\<close>.\<close>

definition latest_try :: "driver \<Rightarrow> string \<Rightarrow> int \<Rightarrow> sink \<Rightarrow> (string + SensorReading list) \<times> sink" where
  "latest_try d sid limit s =
     (case failing d Cursor of
        Some e \<Rightarrow> (Inl e, s)
      | None \<Rightarrow>
     (case failing d Execute of
        Some e \<Rightarrow> (Inl e, s)
      | None \<Rightarrow>
          if limit < 0 then (Inl ''You have an error in your SQL syntax'', s)
          else
     (case failing d Fetchall of
        Some e \<Rightarrow> (Inl e, s)
      | None \<Rightarrow> (Inr (select_latest sid (nat limit) (rows s)), close s))))"

definition get_latest_readings :: "driver \<Rightarrow> string \<Rightarrow> int \<Rightarrow> sink \<Rightarrow> (exn + SensorReading list) \<times> sink" where
  "get_latest_readings d sid limit s =
     (case get_db_connection d s of
        (Inl m, s') \<Rightarrow> (Inl (OtherException m), s')
      | (Inr None, s') \<Rightarrow> (Inl (HTTPException 500 ''Database connection failed''), s')
      | (Inr (Some c), s') \<Rightarrow>
          (case latest_try d sid limit s' of
             (Inr results, s'') \<Rightarrow> (Inr results, s'')
           | (Inl e, s'') \<Rightarrow>
               (Inl (HTTPException 500 (''Database error: '' @ e)),
                close (s''\<lparr>console := console s'' @ [LogRetrieveDataError e]\<rparr>))))"

text \<open>\<open>SELECT DISTINCT sensor_id FROM sensor_data ORDER BY sensor_id\<close>.\<close>

definition select_sensors :: "SensorReading list \<Rightarrow> string list" where
  "select_sensors rs = sort (remdups (map sensor_id rs))"

definition sensors_try :: "driver \<Rightarrow> sink \<Rightarrow> (string + string list) \<times> sink" where
  "sensors_try d s =
     (case failing d Cursor of
        Some e \<Rightarrow> (Inl e, s)
      | None \<Rightarrow>
     (case failing d Execute of
        Some e \<Rightarrow> (Inl e, s)
      | None \<Rightarrow>
     (case failing d Fetchall of
        Some e \<Rightarrow> (Inl e, s)
      | None \<Rightarrow> (Inr (select_sensors (rows s)), close s))))"

definition get_all_sensors :: "driver \<Rightarrow> sink \<Rightarrow> (exn + string list) \<times> sink" where
  "get_all_sensors d s =
     (case get_db_connection d s of
        (Inl m, s') \<Rightarrow> (Inl (OtherException m), s')
      | (Inr None, s') \<Rightarrow> (Inl (HTTPException 500 ''Database connection failed''), s')
      | (Inr (Some c), s') \<Rightarrow>
          (case sensors_try d s' of
             (Inr results, s'') \<Rightarrow> (Inr results, s'')
           | (Inl e, s'') \<Rightarrow>
               (Inl (HTTPException 500 (''Database error: '' @ e)),
                close (s''\<lparr>console := console s'' @ [LogRetrieveSensorsError e]\<rparr>))))"

section \<open>Validation\<close>

text \<open>
  The library parsers the program calls: \<open>datetime.fromisoformat\<close>, and pydantic's
  own conversions of a value that is not yet a \<open>datetime\<close> (a \<open>float\<close>) into one.
  They are parameters of the model: \<open>None\<close> is a rejected input.
\<close>

record pylib =
  fromisoformat :: "string \<Rightarrow> datetime option"
  parse_datetime :: "pyval \<Rightarrow> datetime option"
  parse_float :: "pyval \<Rightarrow> pyfloat option"

text \<open>
  The validators of the three field types, as pydantic 2 has them (the version the
  \<open>json_schema_extra\<close> of the model's configuration belongs to): a \<open>str\<close> field
  takes a string and nothing else, a \<open>datetime\<close> or \<open>float\<close> field takes a value
  of its type as it is and converts any other. \<open>sensor_id: str = Field(...)\<close> is
  required and takes any string: the field declares no minimum length.
\<close>

fun str_field :: "pyval \<Rightarrow> string option" where
  "str_field (PStr s) = Some s"
| "str_field _ = None"

definition datetime_field :: "pylib \<Rightarrow> pyval \<Rightarrow> datetime option" where
  "datetime_field L v = (case v of PDatetime t \<Rightarrow> Some t | _ \<Rightarrow> parse_datetime L v)"

definition float_field :: "pylib \<Rightarrow> pyval \<Rightarrow> pyfloat option" where
  "float_field L v = (case v of PFloat x \<Rightarrow> Some x | _ \<Rightarrow> parse_float L v)"

definition field_value :: "(pyval \<Rightarrow> 'a option) \<Rightarrow> string \<Rightarrow> (string \<times> pyval) list \<Rightarrow> 'a option" where
  "field_value f k kw = (case map_of kw k of None \<Rightarrow> None | Some v \<Rightarrow> f v)"

definition check_field :: "(pyval \<Rightarrow> 'a option) \<Rightarrow> string \<Rightarrow> (string \<times> pyval) list \<Rightarrow> validation_errors" where
  "check_field f k kw =
     (case map_of kw k of
        None \<Rightarrow> [(k, Missing)]
      | Some v \<Rightarrow> (case f v of None \<Rightarrow> [(k, Invalid)] | Some _ \<Rightarrow> []))"

text \<open>\<open>SensorData(**kw)\<close>: every field is validated, the error lists every
  offending field, keys that are no field are ignored.\<close>

definition SensorData_init :: "pylib \<Rightarrow> (string \<times> pyval) list \<Rightarrow> exn + SensorData" where
  "SensorData_init L kw =
     (case (field_value str_field ''sensor_id'' kw, field_value str_field ''device_id'' kw,
            field_value (datetime_field L) ''timestamp'' kw,
            field_value (float_field L) ''temp_value'' kw) of
        (Some s, Some dv, Some t, Some x) \<Rightarrow>
          Inr \<lparr>sensor_id = s, device_id = dv, timestamp = t, temp_value = x\<rparr>
      | _ \<Rightarrow>
          Inl (ValidationError
                (check_field str_field ''sensor_id'' kw @ check_field str_field ''device_id'' kw @
                 check_field (datetime_field L) ''timestamp'' kw @
                 check_field (float_field L) ''temp_value'' kw)))"

section \<open>The asynchronous listener\<close>

text \<open>\<open>json.loads(msg.payload.decode())\<close>: the bytes are not UTF-8, the text is
  not JSON, or a value is decoded.\<close>

datatype mqtt_payload = BadUTF8 | BadJSON | Json pyval

text \<open>
  The first three statements of the \<open>try\<close> block of \<open>on_message\<close>: decode the
  payload, replace \<open>payload['timestamp']\<close> by
  \<open>datetime.fromisoformat(payload['timestamp'])\<close>, build \<open>SensorData(**payload)\<close>.
  \<open>payload['timestamp']\<close> raises \<open>TypeError\<close> on a value that is no dict and
  \<open>KeyError\<close> on a dict without the key; \<open>datetime.fromisoformat\<close> raises
  \<open>TypeError\<close> on a value that is no string and \<open>ValueError\<close> on a string it
  cannot read.
\<close>

definition on_message_decode :: "pylib \<Rightarrow> mqtt_payload \<Rightarrow> exn + SensorData" where
  "on_message_decode L msg =
     (case msg of
        BadUTF8 \<Rightarrow> Inl UnicodeDecodeError
      | BadJSON \<Rightarrow> Inl JSONDecodeError
      | Json (PDict kw) \<Rightarrow>
          (case map_of kw ''timestamp'' of
             None \<Rightarrow> Inl (KeyError ''timestamp'')
           | Some (PStr ts) \<Rightarrow>
               (case fromisoformat L ts of
                  None \<Rightarrow> Inl ValueError
                | Some t \<Rightarrow> SensorData_init L (AList.update ''timestamp'' (PDatetime t) kw))
           | Some _ \<Rightarrow> Inl TypeError)
      | Json _ \<Rightarrow> Inl TypeError)"

text \<open>The whole \<open>try\<close> block: the insert and the printed report follow.\<close>

definition on_message_try :: "pylib \<Rightarrow> driver \<Rightarrow> mqtt_payload \<Rightarrow> sink \<Rightarrow> (exn + unit) \<times> sink" where
  "on_message_try L d msg s =
     (case on_message_decode L msg of
        Inl e \<Rightarrow> (Inl e, s)
      | Inr sensor_data \<Rightarrow>
          (case insert_sensor_data d sensor_data s of
             (Inl e, s') \<Rightarrow> (Inl e, s')
           | (Inr record_id, s') \<Rightarrow>
               (Inr (), s'\<lparr>console := console s' @ [LogReceivedMQTT record_id sensor_data]\<rparr>)))"

text \<open>
  \<open>on_message\<close>: \<open>except json.JSONDecodeError\<close> first, then
  \<open>except Exception\<close>, which takes every other exception of the model. The result is
  what leaves the callback.
\<close>

definition on_message :: "pylib \<Rightarrow> driver \<Rightarrow> mqtt_payload \<Rightarrow> sink \<Rightarrow> (exn + unit) \<times> sink" where
  "on_message L d msg s =
     (case on_message_try L d msg s of
        (Inr u, s') \<Rightarrow> (Inr (), s')
      | (Inl JSONDecodeError, s') \<Rightarrow> (Inr (), s'\<lparr>console := console s' @ [LogDecodeError]\<rparr>)
      | (Inl e, s') \<Rightarrow> (Inr (), s'\<lparr>console := console s' @ [LogProcessError e]\<rparr>))"

text \<open>
  The broker client's loop (\<open>loop_start\<close>): the messages are handed to the callback one
  at a time in delivery order, each with the driver's behaviour during its handling. An
  exception leaving the callback would end the loop.
\<close>

fun listener :: "pylib \<Rightarrow> (driver \<times> mqtt_payload) list \<Rightarrow> sink \<Rightarrow> (exn + unit) \<times> sink" where
  "listener L [] s = (Inr (), s)"
| "listener L ((d, msg) # ms) s =
     (case on_message L d msg s of
        (Inl e, s') \<Rightarrow> (Inl e, s')
      | (Inr u, s') \<Rightarrow> listener L ms s')"

section \<open>The synchronous endpoints\<close>

text \<open>
  The request body of \<open>POST /data\<close> as the framework reads it for the parameter
  \<open>data: SensorData\<close>: \<open>None\<close> is a body that is not JSON. A body that is no JSON
  object, or whose fields fail \<open>SensorData\<close>, is answered with status 422 and the
  handler is not called.
\<close>

definition body_SensorData :: "pylib \<Rightarrow> pyval option \<Rightarrow> exn + SensorData" where
  "body_SensorData L body =
     (case body of
        Some (PDict kw) \<Rightarrow>
          (case SensorData_init L kw of
             Inr data \<Rightarrow> Inr data
           | Inl (ValidationError errs) \<Rightarrow> Inl (RequestValidationError errs)
           | Inl e \<Rightarrow> Inl e)
      | _ \<Rightarrow> Inl (RequestValidationError [(''body'', Invalid)]))"

text \<open>The body of the 201 answer: \<open>status\<close>, \<open>message\<close>, \<open>record_id\<close> and the
  \<open>data\<close> echoed (the last two under a prefix, the handler's variables have their names).\<close>

record submit_response =
  status :: string
  message :: string
  resp_record_id :: int
  resp_data :: SensorData

text \<open>
  The framework turns the dict the handler returns into the JSON body with
  \<open>allow_nan=False\<close>: a \<open>temp_value\<close> that is not a finite number raises
  \<open>ValueError\<close> there, and the request is answered with status 500.
\<close>

definition json_response :: "submit_response \<Rightarrow> exn + submit_response" where
  "json_response r = (if isfinite (temp_value (resp_data r)) then Inr r else Inl ValueError)"

text \<open>
  \<open>POST /data\<close>: insert, print the report, return the answer, which the framework
  then serialises. The prints are taken to succeed.
\<close>

definition submit_sensor_data :: "pylib \<Rightarrow> driver \<Rightarrow> pyval option \<Rightarrow> sink \<Rightarrow> (exn + submit_response) \<times> sink" where
  "submit_sensor_data L d body s =
     (case body_SensorData L body of
        Inl e \<Rightarrow> (Inl e, s)
      | Inr data \<Rightarrow>
          (case insert_sensor_data d data s of
             (Inl e, s') \<Rightarrow> (Inl e, s')
           | (Inr record_id, s') \<Rightarrow>
               (json_response
                  \<lparr>status = ''success'',
                   message = ''Sensor data received and stored in database'',
                   resp_record_id = record_id, resp_data = data\<rparr>,
                s'\<lparr>console := console s' @ [LogReceivedREST record_id data]\<rparr>)))"

text \<open>
  \<open>GET /sensors/{sensor_id}/readings\<close>. \<open>limit: int = Query(default=10, ge=1,
  le=100)\<close>: \<open>None\<close> is a request without the parameter; a value outside the
  bounds is answered with status 422 before the handler runs.
\<close>

definition get_sensor_readings :: "driver \<Rightarrow> string \<Rightarrow> int option \<Rightarrow> sink \<Rightarrow> (exn + SensorReading list) \<times> sink" where
  "get_sensor_readings d sid limit s =
     (let n = (case limit of None \<Rightarrow> 10 | Some n \<Rightarrow> n) in
      if \<not> (1 \<le> n \<and> n \<le> 100) then (Inl (RequestValidationError [(''limit'', Invalid)]), s)
      else
        (case get_latest_readings d sid n s of
           (Inl e, s') \<Rightarrow> (Inl e, s')
         | (Inr readings, s') \<Rightarrow>
             if readings = [] then
               (Inl (HTTPException 404 (''No readings found for sensor: '' @ sid)), s')
             else (Inr readings, s')))"

text \<open>\<open>GET /sensors\<close>.\<close>

definition list_sensors :: "driver \<Rightarrow> sink \<Rightarrow> (exn + string list) \<times> sink" where
  "list_sensors d s =
     (case get_all_sensors d s of
        (Inl e, s') \<Rightarrow> (Inl e, s')
      | (Inr sensors, s') \<Rightarrow> if sensors = [] then (Inr [], s') else (Inr sensors, s'))"

text \<open>\<open>GET /health\<close>, with the broker's address and port read from the environment at
  start. The answer's key \<open>status\<close> is the field \<open>health_status\<close>.\<close>

record config =
  MQTT_BROKER :: string
  MQTT_PORT :: int

record health =
  health_status :: string
  database :: string
  mqtt_broker :: string
  mqtt_port :: int

definition health_check :: "config \<Rightarrow> driver \<Rightarrow> sink \<Rightarrow> health \<times> sink" where
  "health_check cfg d s =
     (let (db_status, s') =
            (case get_db_connection d s of
               (Inr (Some c), s') \<Rightarrow> (''connected'', close s')
             | (Inr None, s') \<Rightarrow> (''disconnected'', s')
             | (Inl m, s') \<Rightarrow> (''error: '' @ m, s'))
      in (\<lparr>health_status = ''healthy'', database = db_status,
           mqtt_broker = MQTT_BROKER cfg, mqtt_port = MQTT_PORT cfg\<rparr>, s'))"

section \<open>Example inputs\<close>

text \<open>
  A library that reads three timestamps (as microseconds after 10:00:00 on 22 October
  2025), reads a JSON integer given for a \<open>datetime\<close> field as seconds since 1 January
  1970 the way pydantic does (10:00:00 on that day is second 1761127200), and turns JSON
  integers into floats; a driver that never fails, the empty sink, and the sink after
  the three inserts \<open>(S1, D1, 10:00:00, 20.5)\<close>, \<open>(S1, D1, 10:00:02, 21.0)\<close>,
  \<open>(S2, D2, 10:00:01, 19.0)\<close>.
\<close>

definition ex_times :: "(string \<times> datetime) list" where
  "ex_times =
     [(''2025-10-22T10:00:00'', 0), (''2025-10-22T10:00:01'', 1000000),
      (''2025-10-22T10:00:02'', 2000000)]"

definition ex_lib :: pylib where
  "ex_lib =
     \<lparr>fromisoformat = map_of ex_times,
      parse_datetime =
        (\<lambda>v. case v of
               PStr ts \<Rightarrow> map_of ex_times ts
             | PInt n \<Rightarrow> Some ((n - 1761127200) * 1000000)
             | _ \<Rightarrow> None),
      parse_float = (\<lambda>v. case v of PInt n \<Rightarrow> Some (Finite (of_int n)) | _ \<Rightarrow> None)\<rparr>"

definition healthy :: driver where
  "healthy = \<lparr>connecting = Connects, failing = (\<lambda>st. None)\<rparr>"

definition unreachable :: driver where
  "unreachable = \<lparr>connecting = ConnectError ''Connection refused'', failing = (\<lambda>st. None)\<rparr>"

definition empty_sink :: sink where
  "empty_sink = \<lparr>rows = [], next_id = 1, pending = [], open_conns = 0, acquired = 0, console = []\<rparr>"

definition ex_sink :: sink where
  "ex_sink =
     \<lparr>rows =
        [\<lparr>sensor_id = ''S1'', device_id = ''D1'', timestamp = 0, temp_value = Finite 20.5, id' = 1\<rparr>,
         \<lparr>sensor_id = ''S1'', device_id = ''D1'', timestamp = 2000000, temp_value = Finite 21, id' = 2\<rparr>,
         \<lparr>sensor_id = ''S2'', device_id = ''D2'', timestamp = 1000000, temp_value = Finite 19, id' = 3\<rparr>],
      next_id = 4, pending = [], open_conns = 0, acquired = 3, console = []\<rparr>"

text \<open>A reading as a JSON object, the way both producers send it.\<close>

definition reading_json :: "string \<Rightarrow> string \<Rightarrow> string \<Rightarrow> pyfloat \<Rightarrow> pyval" where
  "reading_json sid dev ts x =
     PDict [(''sensor_id'', PStr sid), (''device_id'', PStr dev), (''timestamp'', PStr ts),
            (''temp_value'', PFloat x)]"

text \<open>A payload without \<open>temp_value\<close>, and a complete one with the reading it carries.\<close>

definition ex_malformed :: pyval where
  "ex_malformed =
     PDict [(''sensor_id'', PStr ''S1''), (''device_id'', PStr ''D1''),
            (''timestamp'', PStr ''2025-10-22T10:00:00'')]"

definition ex_payload :: pyval where
  "ex_payload = reading_json ''S2'' ''D2'' ''2025-10-22T10:00:02'' (Finite 19.5)"

text \<open>The reading of \<open>ex_malformed\<close> completed, with its time given as the number of
  seconds since 1 January 1970, and a reading whose measurement is \<open>NaN\<close>.\<close>

definition ex_numeric :: pyval where
  "ex_numeric =
     PDict [(''sensor_id'', PStr ''S1''), (''device_id'', PStr ''D1''),
            (''timestamp'', PInt 1761127200), (''temp_value'', PFloat (Finite 20.5))]"


definition ex_reading :: SensorData where
  "ex_reading = \<lparr>sensor_id = ''S2'', device_id = ''D2'', timestamp = 2000000, temp_value = Finite 19.5\<rparr>"

text \<open>The four reading fields of a stored row.\<close>

definition reading_of :: "SensorReading \<Rightarrow> SensorData" where
  "reading_of r =
     \<lparr>sensor_id = sensor_id r, device_id = device_id r, timestamp = timestamp r,
      temp_value = temp_value r\<rparr>"

section \<open>The sink operations, case by case\<close>

lemma insert_cases:
  "insert_sensor_data d data s =
     (case connecting d of
        ConnectRaises m \<Rightarrow> (Inl (OtherException m), s)
      | ConnectError e \<Rightarrow> (Inl (HTTPException 500 ''Database connection failed''),
                           s\<lparr>console := console s @ [LogConnectError e]\<rparr>)
      | Connects \<Rightarrow>
          (case failing d Cursor of
             Some e \<Rightarrow> (Inl (HTTPException 500 (''Database error: '' @ e)),
                        s\<lparr>pending := [], acquired := Suc (acquired s), console := console s @ [LogInsertError e]\<rparr>)
           | None \<Rightarrow>
          (case failing d Execute of
             Some e \<Rightarrow> (Inl (HTTPException 500 (''Database error: '' @ e)),
                        s\<lparr>pending := [], acquired := Suc (acquired s), console := console s @ [LogInsertError e]\<rparr>)
           | None \<Rightarrow>
          (case failing d Commit of
             Some e \<Rightarrow> (Inl (HTTPException 500 (''Database error: '' @ e)),
                        s\<lparr>pending := [], next_id := next_id s + 1, acquired := Suc (acquired s), console := console s @ [LogInsertError e]\<rparr>)
           | None \<Rightarrow> (Inr (next_id s),
                        s\<lparr>rows := rows s @ [stored (next_id s) data], pending := [], next_id := next_id s + 1, acquired := Suc (acquired s)\<rparr>)))))"
  by (simp add: insert_sensor_data_def insert_try_def get_db_connection_def close_def Let_def split: connect_outcome.split option.split)

lemma insert_open_conns: "open_conns (snd (insert_sensor_data d data s)) = open_conns s"
  by (simp add: insert_cases split: connect_outcome.split option.split)

lemma insert_rows_ok: "fst (insert_sensor_data d data s) = Inr i \<Longrightarrow>
   i = next_id s \<and> rows (snd (insert_sensor_data d data s)) = rows s @ [stored i data]"
  by (simp add: insert_cases split: connect_outcome.splits option.splits)

lemma insert_rows_err: "fst (insert_sensor_data d data s) = Inl e \<Longrightarrow>
   rows (snd (insert_sensor_data d data s)) = rows s"
  by (simp add: insert_cases split: connect_outcome.splits option.splits)

lemma latest_cases:
  "get_latest_readings d sid limit s =
     (case connecting d of
        ConnectRaises m \<Rightarrow> (Inl (OtherException m), s)
      | ConnectError e \<Rightarrow> (Inl (HTTPException 500 ''Database connection failed''),
                           s\<lparr>console := console s @ [LogConnectError e]\<rparr>)
      | Connects \<Rightarrow>
          (case (case failing d Cursor of Some e \<Rightarrow> Some e | None \<Rightarrow>
                (case failing d Execute of Some e \<Rightarrow> Some e | None \<Rightarrow>
                 if limit < 0 then Some ''You have an error in your SQL syntax'' else failing d Fetchall)) of
             Some e \<Rightarrow> (Inl (HTTPException 500 (''Database error: '' @ e)),
                        s\<lparr>pending := [], acquired := Suc (acquired s), console := console s @ [LogRetrieveDataError e]\<rparr>)
           | None \<Rightarrow> (Inr (select_latest sid (nat limit) (rows s)),
                        s\<lparr>pending := [], acquired := Suc (acquired s)\<rparr>)))"
  by (simp add: get_latest_readings_def latest_try_def get_db_connection_def close_def Let_def split: connect_outcome.split option.split)

lemma sensors_cases:
  "get_all_sensors d s =
     (case connecting d of
        ConnectRaises m \<Rightarrow> (Inl (OtherException m), s)
      | ConnectError e \<Rightarrow> (Inl (HTTPException 500 ''Database connection failed''),
                           s\<lparr>console := console s @ [LogConnectError e]\<rparr>)
      | Connects \<Rightarrow>
          (case (case failing d Cursor of Some e \<Rightarrow> Some e | None \<Rightarrow>
                (case failing d Execute of Some e \<Rightarrow> Some e | None \<Rightarrow> failing d Fetchall)) of
             Some e \<Rightarrow> (Inl (HTTPException 500 (''Database error: '' @ e)),
                        s\<lparr>pending := [], acquired := Suc (acquired s), console := console s @ [LogRetrieveSensorsError e]\<rparr>)
           | None \<Rightarrow> (Inr (select_sensors (rows s)),
                        s\<lparr>pending := [], acquired := Suc (acquired s)\<rparr>)))"
  by (simp add: get_all_sensors_def sensors_try_def get_db_connection_def close_def Let_def split: connect_outcome.split option.split)

lemma latest_returns: "fst (get_latest_readings d sid limit s) = Inr rs \<Longrightarrow>
    0 \<le> limit \<and> rs = select_latest sid (nat limit) (rows s)"
  by (auto simp: latest_cases split: connect_outcome.splits option.splits if_splits)

lemma sensors_returns: "fst (get_all_sensors d s) = Inr xs \<Longrightarrow> xs = select_sensors (rows s)"
  by (auto simp: sensors_cases split: connect_outcome.splits option.splits if_splits)

lemma sensors_rows: "rows (snd (get_all_sensors d s)) = rows s"
  by (simp add: sensors_cases split: connect_outcome.splits option.splits)

lemma select_latest_keys: "sorted (map latest_key (select_latest sid n rs))"
  unfolding select_latest_def
  by (simp add: take_map[symmetric] sorted_wrt_take del: take_map)

lemma latest_key_le: "(latest_key a \<le> latest_key b) = (timestamp b < timestamp a \<or> (timestamp b = timestamp a \<and> id' b \<le> id' a))"
  by (auto simp: latest_key_def less_eq_prod_def)

lemma select_latest_sorted:
  "sorted_wrt (\<lambda>a b. timestamp b < timestamp a \<or> (timestamp b = timestamp a \<and> id' b \<le> id' a)) (select_latest sid n rs)"
  using select_latest_keys[of sid n rs] by (simp add: sorted_map latest_key_le)

lemma select_latest_length: "length (select_latest sid n rs) \<le> n"
  by (simp add: select_latest_def)

lemma select_latest_sensor: "r \<in> set (select_latest sid n rs) \<Longrightarrow> sensor_id r = sid \<and> r \<in> set rs"
  unfolding select_latest_def by (auto dest!: in_set_takeD)

lemma select_sensors_props: "sorted (select_sensors rs) \<and> distinct (select_sensors rs) \<and> set (select_sensors rs) = sensor_id ` set rs"
  by (simp add: select_sensors_def)

lemma list_sensors_fst: "fst (list_sensors d s) = fst (get_all_sensors d s)"
  by (auto simp: list_sensors_def split: prod.splits sum.splits)

lemma ex_latest_S1:
  "fst (get_latest_readings healthy ''S1'' 10 ex_sink) =
     Inr [\<lparr>sensor_id = ''S1'', device_id = ''D1'', timestamp = 2000000, temp_value = Finite 21, id' = 2\<rparr>,
          \<lparr>sensor_id = ''S1'', device_id = ''D1'', timestamp = 0, temp_value = Finite 20.5, id' = 1\<rparr>]"
  by (simp add: latest_cases healthy_def ex_sink_def select_latest_def latest_key_def less_eq_prod_def)

lemma ex_readings_S1:
  "fst (get_sensor_readings healthy ''S1'' (Some 1) ex_sink) =
     Inr [\<lparr>sensor_id = ''S1'', device_id = ''D1'', timestamp = 2000000, temp_value = Finite 21, id' = 2\<rparr>]"
  by (simp add: get_sensor_readings_def latest_cases healthy_def ex_sink_def select_latest_def
      latest_key_def less_eq_prod_def)

lemma ex_sensors: "fst (get_all_sensors healthy ex_sink) = Inr [''S1'', ''S2'']"
  by (simp add: sensors_cases healthy_def ex_sink_def select_sensors_def)

section \<open>Validation and the synchronous endpoint, case by case\<close>

lemma field_value_None_check:
  "field_value f k kw = None \<Longrightarrow> check_field f k kw = [(k, Missing)] \<or> check_field f k kw = [(k, Invalid)]"
  by (auto simp: field_value_def check_field_def split: option.splits)

lemma init_Inr_iff:
  "SensorData_init L kw = Inr sd \<longleftrightarrow>
     field_value str_field ''sensor_id'' kw = Some (sensor_id sd) \<and>
     field_value str_field ''device_id'' kw = Some (device_id sd) \<and>
     field_value (datetime_field L) ''timestamp'' kw = Some (timestamp sd) \<and>
     field_value (float_field L) ''temp_value'' kw = Some (temp_value sd)"
  by (cases sd) (auto simp: SensorData_init_def split: option.splits)

lemma init_Inl:
  "SensorData_init L kw = Inl e \<Longrightarrow>
     e = ValidationError
          (check_field str_field ''sensor_id'' kw @ check_field str_field ''device_id'' kw @
           check_field (datetime_field L) ''timestamp'' kw @
           check_field (float_field L) ''temp_value'' kw)"
  by (auto simp: SensorData_init_def split: option.splits)

lemma init_sensor_id_rejected:
  assumes "field_value str_field ''sensor_id'' kw = None"
  shows "\<exists>errs. SensorData_init L kw = Inl (ValidationError errs) \<and> ''sensor_id'' \<in> fst ` set errs"
proof -
  have "SensorData_init L kw \<noteq> Inr sd" for sd
    using assms by (simp add: init_Inr_iff)
  then obtain e where e: "SensorData_init L kw = Inl e"
    by (cases "SensorData_init L kw") auto
  from field_value_None_check[OF assms]
  have "''sensor_id'' \<in> fst ` set (check_field str_field ''sensor_id'' kw)" by auto
  with init_Inl[OF e] e show ?thesis by auto
qed

lemma submit_rejected: "body_SensorData L body = Inl e \<Longrightarrow> submit_sensor_data L d body s = (Inl e, s)"
  by (simp add: submit_sensor_data_def)

lemma submit_validated:
  "body_SensorData L body = Inr sd \<Longrightarrow>
   submit_sensor_data L d body s =
     (case insert_sensor_data d sd s of
        (Inl e, s') \<Rightarrow> (Inl e, s')
      | (Inr i, s') \<Rightarrow>
          (json_response
             \<lparr>status = ''success'', message = ''Sensor data received and stored in database'',
              resp_record_id = i, resp_data = sd\<rparr>,
           s'\<lparr>console := console s' @ [LogReceivedREST i sd]\<rparr>))"
  by (simp add: submit_sensor_data_def)

lemmas eval_defs = submit_sensor_data_def json_response_def body_SensorData_def SensorData_init_def field_value_def check_field_def
  datetime_field_def float_field_def ex_lib_def ex_times_def reading_json_def insert_cases healthy_def
  empty_sink_def stored_def

lemma insert_pending: "pending s = [] \<Longrightarrow> pending (snd (insert_sensor_data d data s)) = []"
  by (simp add: insert_cases split: connect_outcome.split option.split)

section \<open>The message handler, case by case\<close>

lemma on_message_decode_fail:
  "on_message_decode L msg = Inl e \<Longrightarrow>
   on_message L d msg s =
     (Inr (), s\<lparr>console := console s @ [if e = JSONDecodeError then LogDecodeError else LogProcessError e]\<rparr>)"
  by (cases e) (simp_all add: on_message_def on_message_try_def)

lemma insert_error_kind:
  "fst (insert_sensor_data d sd s) = Inl e \<Longrightarrow> e \<noteq> JSONDecodeError"
  by (auto simp: insert_cases split: connect_outcome.splits option.splits)

lemma on_message_insert_fail:
  assumes "on_message_decode L msg = Inr sd" and "fst (insert_sensor_data d sd s) = Inl e"
  shows "on_message L d msg s =
     (Inr (), (snd (insert_sensor_data d sd s))
                \<lparr>console := console (snd (insert_sensor_data d sd s)) @ [LogProcessError e]\<rparr>)"
proof -
  obtain s' where i: "insert_sensor_data d sd s = (Inl e, s')"
    using assms(2) by (cases "insert_sensor_data d sd s") auto
  have t: "on_message_try L d msg s = (Inl e, s')"
    by (simp add: on_message_try_def assms(1) i)
  from insert_error_kind[OF assms(2)] show ?thesis
    unfolding on_message_def t i by (cases e) simp_all
qed

lemma on_message_insert_ok:
  assumes "on_message_decode L msg = Inr sd" and "fst (insert_sensor_data d sd s) = Inr i"
  shows "on_message L d msg s =
     (Inr (), (snd (insert_sensor_data d sd s))
                \<lparr>console := console (snd (insert_sensor_data d sd s)) @ [LogReceivedMQTT i sd]\<rparr>)"
proof -
  obtain s' where i: "insert_sensor_data d sd s = (Inr i, s')"
    using assms(2) by (cases "insert_sensor_data d sd s") auto
  have t: "on_message_try L d msg s = (Inr (), s'\<lparr>console := console s' @ [LogReceivedMQTT i sd]\<rparr>)"
    by (simp add: on_message_try_def assms(1) i)
  show ?thesis unfolding on_message_def t i by simp
qed

lemma on_message_rows:
  "rows (snd (on_message L d msg s)) =
     (case on_message_decode L msg of
        Inl e \<Rightarrow> rows s
      | Inr sd \<Rightarrow> rows (snd (insert_sensor_data d sd s)))"
proof (cases "on_message_decode L msg")
  case (Inl e)
  show ?thesis unfolding Inl on_message_decode_fail[OF Inl] by simp
next
  case (Inr sd)
  show ?thesis
  proof (cases "fst (insert_sensor_data d sd s)")
    case (Inl e)
    show ?thesis unfolding Inr on_message_insert_fail[OF Inr Inl] by simp
  next
    case i: (Inr i)
    show ?thesis unfolding Inr on_message_insert_ok[OF Inr i] by simp
  qed
qed

lemma on_message_open_conns: "open_conns (snd (on_message L d msg s)) = open_conns s"
proof (cases "on_message_decode L msg")
  case (Inl e)
  show ?thesis unfolding on_message_decode_fail[OF Inl] by simp
next
  case (Inr sd)
  show ?thesis
  proof (cases "fst (insert_sensor_data d sd s)")
    case (Inl e)
    show ?thesis unfolding on_message_insert_fail[OF Inr Inl] by (simp add: insert_open_conns)
  next
    case i: (Inr i)
    show ?thesis unfolding on_message_insert_ok[OF Inr i] by (simp add: insert_open_conns)
  qed
qed

lemma on_message_returns: "fst (on_message L d msg s) = Inr ()"
proof (cases "on_message_decode L msg")
  case (Inl e)
  show ?thesis unfolding on_message_decode_fail[OF Inl] by simp
next
  case (Inr sd)
  show ?thesis
  proof (cases "fst (insert_sensor_data d sd s)")
    case (Inl e)
    show ?thesis unfolding on_message_insert_fail[OF Inr Inl] by simp
  next
    case i: (Inr i)
    show ?thesis unfolding on_message_insert_ok[OF Inr i] by simp
  qed
qed

lemma listener_step: "listener L ((d, msg) # ms) s = listener L ms (snd (on_message L d msg s))"
proof -
  obtain s' where "on_message L d msg s = (Inr (), s')"
    using on_message_returns[of L d msg s] by (cases "on_message L d msg s") auto
  then show ?thesis by simp
qed

lemma listener_returns: "fst (listener L ms s) = Inr ()"
proof (induction ms arbitrary: s)
  case Nil
  show ?case by simp
next
  case (Cons m ms)
  obtain d msg where m: "m = (d, msg)" by (cases m)
  show ?case unfolding m listener_step by (rule Cons.IH)
qed

lemma reading_of_stored: "reading_of (stored i sd) = sd"
  by (cases sd) (simp add: reading_of_def stored_def)

lemma insert_outcome_indep:
  "isl (fst (insert_sensor_data d sd s)) = isl (fst (insert_sensor_data d sd t))"
  by (simp add: insert_cases split: connect_outcome.split option.split)

lemma insert_readings:
  assumes "map reading_of (rows s) = map reading_of (rows t)"
  shows "map reading_of (rows (snd (insert_sensor_data d sd s))) =
         map reading_of (rows (snd (insert_sensor_data d sd t)))"
proof (cases "fst (insert_sensor_data d sd s)")
  case (Inl e)
  with insert_outcome_indep[of d sd s t] obtain e' where "fst (insert_sensor_data d sd t) = Inl e'"
    by (cases "fst (insert_sensor_data d sd t)") auto
  from insert_rows_err[OF this] insert_rows_err[OF Inl] assms show ?thesis by simp
next
  case (Inr i)
  with insert_outcome_indep[of d sd s t] obtain j where "fst (insert_sensor_data d sd t) = Inr j"
    by (cases "fst (insert_sensor_data d sd t)") auto
  from insert_rows_ok[OF this] insert_rows_ok[OF Inr] assms show ?thesis
    by (simp add: reading_of_stored)
qed

lemma on_message_readings:
  assumes "map reading_of (rows s) = map reading_of (rows t)"
  shows "map reading_of (rows (snd (on_message L d msg s))) =
         map reading_of (rows (snd (on_message L d msg t)))"
proof (cases "on_message_decode L msg")
  case (Inl e)
  show ?thesis unfolding on_message_rows Inl using assms by simp
next
  case (Inr sd)
  have "map reading_of (rows (snd (insert_sensor_data d sd s))) =
        map reading_of (rows (snd (insert_sensor_data d sd t)))"
    using assms by (rule insert_readings)
  then show ?thesis unfolding on_message_rows Inr by simp
qed

lemma listener_readings:
  "map reading_of (rows s) = map reading_of (rows t) \<Longrightarrow>
   map reading_of (rows (snd (listener L ms s))) = map reading_of (rows (snd (listener L ms t)))"
proof (induction ms arbitrary: s t)
  case Nil
  then show ?case by simp
next
  case (Cons m ms)
  obtain d msg where m: "m = (d, msg)" by (cases m)
  show ?case
    unfolding m listener_step
    by (rule Cons.IH) (rule on_message_readings[OF Cons.prems])
qed

lemma body_Inr_iff: "body_SensorData L (Some (PDict kw)) = Inr sd \<longleftrightarrow> SensorData_init L kw = Inr sd"
  by (auto simp: body_SensorData_def split: sum.splits exn.splits)

lemma submit_rows:
  assumes "body_SensorData L body = Inr sd"
  shows "rows (snd (submit_sensor_data L d body t)) = rows (snd (insert_sensor_data d sd t))"
  unfolding submit_validated[OF assms]
  by (cases "insert_sensor_data d sd t") (auto split: sum.splits)

lemma submit_rows_cases:
  "rows (snd (submit_sensor_data L d body s)) =
     (case body_SensorData L body of
        Inl e \<Rightarrow> rows s
      | Inr sd \<Rightarrow> rows (snd (insert_sensor_data d sd s)))"
proof (cases "body_SensorData L body")
  case (Inl e)
  show ?thesis unfolding Inl submit_rejected[OF Inl] by simp
next
  case (Inr sd)
  show ?thesis unfolding Inr submit_rows[OF Inr] by simp
qed

lemma insert_new_rows:
  "map reading_of (drop (length (rows s)) (rows (snd (insert_sensor_data d sd s)))) =
     (if isl (fst (insert_sensor_data d sd s)) then [] else [sd])"
proof (cases "fst (insert_sensor_data d sd s)")
  case (Inl e)
  show ?thesis unfolding Inl insert_rows_err[OF Inl] by simp
next
  case (Inr i)
  from insert_rows_ok[OF Inr] show ?thesis unfolding Inr by (simp add: reading_of_stored)
qed

lemma insert_new_rows_indep:
  "map reading_of (drop (length (rows s)) (rows (snd (insert_sensor_data d sd s)))) =
   map reading_of (drop (length (rows t)) (rows (snd (insert_sensor_data d sd t))))"
  unfolding insert_new_rows insert_outcome_indep[of d sd s t] by (rule refl)

lemma field_value_update:
  "field_value f k (AList.update k' v kw) = (if k = k' then f v else field_value f k kw)"
  by (simp add: field_value_def update_conv')

lemma decode_dict:
  assumes "map_of kw ''timestamp'' = Some (PStr ts)" and "fromisoformat L ts = Some tm"
  shows "on_message_decode L (Json (PDict kw)) =
         SensorData_init L (AList.update ''timestamp'' (PDatetime tm) kw)"
  by (simp add: on_message_decode_def assms)

lemma same_payload:
  assumes "map_of kw ''timestamp'' = Some (PStr ts)"
    and "parse_datetime L (PStr ts) = fromisoformat L ts"
  shows "on_message_decode L (Json (PDict kw)) = Inr sd \<longleftrightarrow>
         body_SensorData L (Some (PDict kw)) = Inr sd"
proof (cases "fromisoformat L ts")
  case None
  have a: "field_value (datetime_field L) ''timestamp'' kw = None"
    by (simp add: field_value_def datetime_field_def assms None)
  have "on_message_decode L (Json (PDict kw)) = Inl ValueError"
    by (simp add: on_message_decode_def assms(1) None)
  then show ?thesis
    unfolding body_Inr_iff init_Inr_iff by (simp add: a)
next
  case (Some tm)
  have a: "field_value (datetime_field L) ''timestamp'' kw = Some tm"
    by (simp add: field_value_def datetime_field_def assms Some)
  have b: "datetime_field L (PDatetime tm) = Some tm"
    by (simp add: datetime_field_def)
  show ?thesis
    unfolding decode_dict[OF assms(1) Some] body_Inr_iff init_Inr_iff field_value_update
    by (simp add: a b)
qed

lemma same_payload_cases:
  assumes "map_of kw ''timestamp'' = Some (PStr ts)"
    and "parse_datetime L (PStr ts) = fromisoformat L ts"
  shows "(case on_message_decode L (Json (PDict kw)) of Inl e \<Rightarrow> x | Inr sd \<Rightarrow> f sd) =
         (case body_SensorData L (Some (PDict kw)) of Inl e \<Rightarrow> x | Inr sd \<Rightarrow> f sd)"
proof (cases "body_SensorData L (Some (PDict kw))")
  case (Inr sd)
  with same_payload[OF assms, of sd] have "on_message_decode L (Json (PDict kw)) = Inr sd"
    by simp
  then show ?thesis unfolding Inr by simp
next
  case (Inl e)
  have "on_message_decode L (Json (PDict kw)) \<noteq> Inr sd" for sd
    using same_payload[OF assms, of sd] Inl by simp
  then obtain e' where "on_message_decode L (Json (PDict kw)) = Inl e'"
    by (cases "on_message_decode L (Json (PDict kw))") auto
  then show ?thesis unfolding Inl by simp
qed

section \<open>The examples, evaluated\<close>

lemmas validation_defs = SensorData_init_def field_value_def check_field_def datetime_field_def
  float_field_def ex_lib_def ex_times_def

lemma ex_malformed_decode:
  "on_message_decode ex_lib (Json ex_malformed) = Inl (ValidationError [(''temp_value'', Missing)])"
  by (simp add: on_message_decode_def ex_malformed_def validation_defs)

lemma ex_payload_decode: "on_message_decode ex_lib (Json ex_payload) = Inr ex_reading"
  by (simp add: on_message_decode_def ex_payload_def reading_json_def ex_reading_def validation_defs)

lemma ex_payload_body: "body_SensorData ex_lib (Some ex_payload) = Inr ex_reading"
  by (simp add: body_SensorData_def ex_payload_def reading_json_def ex_reading_def validation_defs)

lemma ex_insert_unreachable:
  "fst (insert_sensor_data unreachable ex_reading ex_sink) =
     Inl (HTTPException 500 ''Database connection failed'')"
  by (simp add: insert_cases unreachable_def)

lemma ex_insert_healthy: "fst (insert_sensor_data healthy sd s) = Inr (next_id s)"
  by (simp add: insert_cases healthy_def)

lemma ex_listener_one:
  "map reading_of (rows (snd (listener ex_lib [(healthy, Json ex_payload)] ex_sink))) =
     map reading_of (rows ex_sink) @ [ex_reading]"
proof -
  have "rows (snd (insert_sensor_data healthy ex_reading ex_sink)) =
      rows ex_sink @ [stored (next_id ex_sink) ex_reading]"
    using insert_rows_ok[OF ex_insert_healthy] by simp
  then show ?thesis
    unfolding listener_step listener.simps(1) snd_conv on_message_rows ex_payload_decode
    by (simp add: reading_of_stored)
qed

section \<open>The query service\<close>

text \<open>
  Claim C2. Whatever the sensor and the limit, the rows the latest-readings query returns
  are ordered by timestamp descending, and two rows with the same timestamp are ordered
  by id descending.
\<close>

theorem get_latest_readings_sorted:
  "fst (get_latest_readings d sid limit s) = Inr results \<Longrightarrow>
   sorted_wrt (\<lambda>a b. timestamp b < timestamp a \<or> (timestamp b = timestamp a \<and> id' b \<le> id' a)) results"
  using latest_returns[of d sid limit s results] by (simp add: select_latest_sorted)

theorem get_latest_readings_sorted_witness:
  "fst (get_latest_readings healthy ''S1'' 10 ex_sink) =
     Inr [\<lparr>sensor_id = ''S1'', device_id = ''D1'', timestamp = 2000000, temp_value = Finite 21, id' = 2\<rparr>,
          \<lparr>sensor_id = ''S1'', device_id = ''D1'', timestamp = 0, temp_value = Finite 20.5, id' = 1\<rparr>] \<and>
   sorted_wrt (\<lambda>a b. timestamp b < timestamp a \<or> (timestamp b = timestamp a \<and> id' b \<le> id' a))
     [\<lparr>sensor_id = ''S1'', device_id = ''D1'', timestamp = 2000000, temp_value = Finite 21, id' = 2\<rparr>,
      \<lparr>sensor_id = ''S1'', device_id = ''D1'', timestamp = 0, temp_value = Finite 20.5, id' = 1\<rparr>]"
  using get_latest_readings_sorted[OF ex_latest_S1] ex_latest_S1 by blast

text \<open>
  Claim C6. For a limit the query service accepts (the default 10 when none is given),
  the readings endpoint returns at most that many rows, and every one of them is a row of
  the sensor asked for.
\<close>

theorem readings_bounded:
  "fst (get_sensor_readings d sid limit s) = Inr readings \<Longrightarrow>
   int (length readings) \<le> (case limit of None \<Rightarrow> 10 | Some n \<Rightarrow> n) \<and>
   (\<forall>r \<in> set readings. sensor_id r = sid)"
proof -
  assume a: "fst (get_sensor_readings d sid limit s) = Inr readings"
  define n where "n = (case limit of None \<Rightarrow> (10::int) | Some n \<Rightarrow> n)"
  from a have b: "fst (get_latest_readings d sid n s) = Inr readings"
    by (auto simp: get_sensor_readings_def n_def Let_def split: if_splits prod.splits sum.splits)
  from latest_returns[OF b] have c: "0 \<le> n" and e: "readings = select_latest sid (nat n) (rows s)"
    by simp_all
  have "length readings \<le> nat n" unfolding e by (rule select_latest_length)
  with c have "int (length readings) \<le> n" by linarith
  moreover have "\<forall>r \<in> set readings. sensor_id r = sid"
    unfolding e using select_latest_sensor by blast
  ultimately show ?thesis unfolding n_def by simp
qed

theorem readings_bounded_witness:
  "fst (get_sensor_readings healthy ''S1'' (Some 1) ex_sink) =
     Inr [\<lparr>sensor_id = ''S1'', device_id = ''D1'', timestamp = 2000000, temp_value = Finite 21, id' = 2\<rparr>] \<and>
   int (length [\<lparr>sensor_id = ''S1'', device_id = ''D1'', timestamp = 2000000, temp_value = Finite 21, id' = 2\<rparr>]) \<le> 1 \<and>
   sensor_id \<lparr>sensor_id = ''S1'', device_id = ''D1'', timestamp = 2000000, temp_value = Finite 21, id' = 2\<rparr> = ''S1''"
  using readings_bounded[OF ex_readings_S1] ex_readings_S1 by simp

text \<open>
  Claim C7. Whatever rows the sink holds, the distinct-sensors query returns when the
  driver connects and raises no error, and whenever it returns, its result is sorted
  lexicographically, has no duplicates and holds exactly the sensor ids that have a stored
  row; the call leaves the rows as they are, so a second call that returns gives the same
  sequence.
\<close>

theorem all_sensors_sorted:
  "(connecting d = Connects \<and> failing d Cursor = None \<and> failing d Execute = None \<and>
    failing d Fetchall = None \<longrightarrow> (\<exists>sensors. fst (get_all_sensors d s) = Inr sensors)) \<and>
   (fst (get_all_sensors d s) = Inr sensors \<longrightarrow>
      sorted sensors \<and> distinct sensors \<and> set sensors = sensor_id ` set (rows s) \<and>
      rows (snd (get_all_sensors d s)) = rows s \<and>
      (\<forall>d' again. fst (get_all_sensors d' (snd (get_all_sensors d s))) = Inr again \<longrightarrow> again = sensors))"
proof (rule conjI)
  show "connecting d = Connects \<and> failing d Cursor = None \<and> failing d Execute = None \<and>
    failing d Fetchall = None \<longrightarrow> (\<exists>sensors. fst (get_all_sensors d s) = Inr sensors)"
    by (simp add: sensors_cases)
next
  show "fst (get_all_sensors d s) = Inr sensors \<longrightarrow>
      sorted sensors \<and> distinct sensors \<and> set sensors = sensor_id ` set (rows s) \<and>
      rows (snd (get_all_sensors d s)) = rows s \<and>
      (\<forall>d' again. fst (get_all_sensors d' (snd (get_all_sensors d s))) = Inr again \<longrightarrow> again = sensors)"
  proof
    assume a: "fst (get_all_sensors d s) = Inr sensors"
    have e: "sensors = select_sensors (rows s)" using a by (rule sensors_returns)
    have "again = sensors" if "fst (get_all_sensors d' (snd (get_all_sensors d s))) = Inr again" for d' again
      using sensors_returns[OF that] e by (simp add: sensors_rows)
    then show "sorted sensors \<and> distinct sensors \<and> set sensors = sensor_id ` set (rows s) \<and>
      rows (snd (get_all_sensors d s)) = rows s \<and>
      (\<forall>d' again. fst (get_all_sensors d' (snd (get_all_sensors d s))) = Inr again \<longrightarrow> again = sensors)"
      using select_sensors_props[of "rows s"] e sensors_rows[of d s] by blast
  qed
qed

theorem all_sensors_sorted_witness:
  "fst (get_all_sensors healthy ex_sink) = Inr [''S1'', ''S2''] \<and>
   sorted [''S1'', ''S2''] \<and> distinct [''S1'', ''S2''] \<and>
   fst (get_all_sensors healthy (snd (get_all_sensors healthy ex_sink))) = Inr [''S1'', ''S2'']"
proof -
  have again: "fst (get_all_sensors healthy (snd (get_all_sensors healthy ex_sink))) =
      Inr (select_sensors (rows (snd (get_all_sensors healthy ex_sink))))"
    by (simp add: sensors_cases healthy_def)
  note t = conjunct2[OF all_sensors_sorted, THEN mp, OF ex_sensors]
  from t have srt: "sorted [''S1'', ''S2'']" by (rule conjunct1)
  from t have dst: "distinct [''S1'', ''S2'']" by (rule conjunct1[OF conjunct2])
  from t have "\<forall>d' again. fst (get_all_sensors d' (snd (get_all_sensors healthy ex_sink))) = Inr again \<longrightarrow> again = [''S1'', ''S2'']"
    by (rule conjunct2[OF conjunct2[OF conjunct2[OF conjunct2]]])
  then have "select_sensors (rows (snd (get_all_sensors healthy ex_sink))) = [''S1'', ''S2'']"
    using again by (elim allE impE) assumption
  with again have "fst (get_all_sensors healthy (snd (get_all_sensors healthy ex_sink))) = Inr [''S1'', ''S2'']"
    by (simp only:)
  with srt dst ex_sensors show ?thesis by (intro conjI)
qed

text \<open>
  Claim C5, as the code has it. The list-sensors endpoint answers with the distinct
  sensor ids (the empty sequence for an empty sink) when the connection is acquired and
  the query raises no database error; when the connection cannot be acquired, or the
  query raises a database error, it answers with status 500. The claim as stated, that it
  never fails, is refuted by an unreachable database.
\<close>

theorem list_sensors_answers:
  "(connecting d = Connects \<and> failing d Cursor = None \<and> failing d Execute = None \<and> failing d Fetchall = None
      \<longrightarrow> fst (list_sensors d s) = Inr (select_sensors (rows s)) \<and>
          (rows s = [] \<longrightarrow> fst (list_sensors d s) = Inr [])) \<and>
   (\<forall>e. connecting d = ConnectError e
      \<longrightarrow> fst (list_sensors d s) = Inl (HTTPException 500 ''Database connection failed'')) \<and>
   (connecting d = Connects \<and>
    (failing d Cursor \<noteq> None \<or> failing d Execute \<noteq> None \<or> failing d Fetchall \<noteq> None)
      \<longrightarrow> (\<exists>e. fst (list_sensors d s) = Inl (HTTPException 500 (''Database error: '' @ e))))"
  by (auto simp: list_sensors_fst sensors_cases select_sensors_def split: option.splits)

theorem list_sensors_answers_witness:
  "fst (list_sensors healthy empty_sink) = Inr [] \<and>
   fst (list_sensors healthy ex_sink) = Inr [''S1'', ''S2''] \<and>
   fst (list_sensors unreachable ex_sink) = Inl (HTTPException 500 ''Database connection failed'')"
  using list_sensors_answers[of healthy empty_sink] list_sensors_answers[of healthy ex_sink]
    list_sensors_answers[of unreachable ex_sink]
  by (simp add: healthy_def unreachable_def empty_sink_def ex_sink_def select_sensors_def)

theorem list_sensors_fails_counterexample:
  "fst (list_sensors unreachable empty_sink) = Inl (HTTPException 500 ''Database connection failed'')"
  by (simp add: list_sensors_fst sensors_cases unreachable_def)

section \<open>Connections\<close>



section \<open>The health probe\<close>

text \<open>
  Claim C9. The health probe always answers: its database field is \<open>connected\<close> when
  a connection was acquired (and released), \<open>disconnected\<close> when the driver reported a
  database error on connecting, and \<open>error: \<close> followed by the message when connecting
  raised anything else; it echoes the configured broker address and port, and it leaves
  no connection open.
\<close>

theorem health_check_responds:
  "database (fst (health_check cfg d s)) =
     (case connecting d of
        Connects \<Rightarrow> ''connected''
      | ConnectError e \<Rightarrow> ''disconnected''
      | ConnectRaises m \<Rightarrow> ''error: '' @ m) \<and>
   mqtt_broker (fst (health_check cfg d s)) = MQTT_BROKER cfg \<and>
   mqtt_port (fst (health_check cfg d s)) = MQTT_PORT cfg \<and>
   health_status (fst (health_check cfg d s)) = ''healthy'' \<and>
   open_conns (snd (health_check cfg d s)) = open_conns s \<and>
   rows (snd (health_check cfg d s)) = rows s \<and>
   acquired (snd (health_check cfg d s)) = acquired s + (if connecting d = Connects then 1 else 0)"
  by (simp add: health_check_def get_db_connection_def close_def split: connect_outcome.split)

theorem health_check_responds_witness:
  "database (fst (health_check \<lparr>MQTT_BROKER = ''localhost'', MQTT_PORT = 1883\<rparr> healthy ex_sink)) = ''connected'' \<and>
   database (fst (health_check \<lparr>MQTT_BROKER = ''localhost'', MQTT_PORT = 1883\<rparr> unreachable ex_sink)) = ''disconnected'' \<and>
   database (fst (health_check \<lparr>MQTT_BROKER = ''localhost'', MQTT_PORT = 1883\<rparr>
       \<lparr>connecting = ConnectRaises ''Unsupported argument'', failing = (\<lambda>st. None)\<rparr> ex_sink)) = ''error: Unsupported argument'' \<and>
   mqtt_broker (fst (health_check \<lparr>MQTT_BROKER = ''localhost'', MQTT_PORT = 1883\<rparr> unreachable ex_sink)) = ''localhost''"
  using health_check_responds[of "\<lparr>MQTT_BROKER = ''localhost'', MQTT_PORT = 1883\<rparr>" healthy ex_sink]
    health_check_responds[of "\<lparr>MQTT_BROKER = ''localhost'', MQTT_PORT = 1883\<rparr>" unreachable ex_sink]
    health_check_responds[of "\<lparr>MQTT_BROKER = ''localhost'', MQTT_PORT = 1883\<rparr>" "\<lparr>connecting = ConnectRaises ''Unsupported argument'', failing = (\<lambda>st. None)\<rparr>" ex_sink]
  by (simp add: healthy_def unreachable_def)

section \<open>The synchronous ingestion endpoint\<close>

text \<open>
  Claim C1, as the code has it. A submission whose body has no \<open>sensor_id\<close>, or one
  that is not a string, is answered with a validation error that names the field, and the
  sink is left untouched. The claim as stated is refuted by a submission with the empty
  string as \<open>sensor_id\<close>: the field declares no minimum length, the reading is stored.
\<close>

theorem missing_sensor_id_rejected:
  assumes "\<forall>x. map_of kw ''sensor_id'' \<noteq> Some (PStr x)"
  shows "\<exists>errs. submit_sensor_data L d (Some (PDict kw)) s = (Inl (RequestValidationError errs), s) \<and>
           ''sensor_id'' \<in> fst ` set errs"
proof -
  have "field_value str_field ''sensor_id'' kw = None"
  proof (cases "map_of kw ''sensor_id''")
    case None then show ?thesis by (simp add: field_value_def)
  next
    case (Some v)
    with assms have "\<forall>x. v \<noteq> PStr x" by simp
    then have "str_field v = None" by (cases v) auto
    with Some show ?thesis by (simp add: field_value_def)
  qed
  from init_sensor_id_rejected[OF this, of L] obtain errs where
    e: "SensorData_init L kw = Inl (ValidationError errs)" and m: "''sensor_id'' \<in> fst ` set errs"
    by blast
  from e have "body_SensorData L (Some (PDict kw)) = Inl (RequestValidationError errs)"
    by (simp add: body_SensorData_def)
  from submit_rejected[OF this] m show ?thesis by blast
qed

theorem missing_sensor_id_rejected_witness:
  "submit_sensor_data ex_lib healthy
     (Some (PDict [(''device_id'', PStr ''D1''), (''timestamp'', PStr ''2025-10-22T10:00:00''), (''temp_value'', PFloat (Finite 20.5))]))
     ex_sink = (Inl (RequestValidationError [(''sensor_id'', Missing)]), ex_sink)"
  using missing_sensor_id_rejected[of "[(''device_id'', PStr ''D1''), (''timestamp'', PStr ''2025-10-22T10:00:00''), (''temp_value'', PFloat (Finite 20.5))]" ex_lib healthy ex_sink]
  by (simp add: submit_sensor_data_def body_SensorData_def SensorData_init_def field_value_def check_field_def
  datetime_field_def float_field_def ex_lib_def ex_times_def)

theorem empty_sensor_id_accepted_counterexample:
  "fst (submit_sensor_data ex_lib healthy (Some (reading_json '''' ''D1'' ''2025-10-22T10:00:00'' (Finite 20.5))) empty_sink) =
     Inr \<lparr>status = ''success'', message = ''Sensor data received and stored in database'',
          resp_record_id = 1,
          resp_data = \<lparr>sensor_id = '''', device_id = ''D1'', timestamp = 0, temp_value = Finite 20.5\<rparr>\<rparr> \<and>
   rows (snd (submit_sensor_data ex_lib healthy (Some (reading_json '''' ''D1'' ''2025-10-22T10:00:00'' (Finite 20.5))) empty_sink)) =
     [\<lparr>sensor_id = '''', device_id = ''D1'', timestamp = 0, temp_value = Finite 20.5, id' = 1\<rparr>]"
  by (simp add: eval_defs)




section \<open>The asynchronous listener and the two channels\<close>

text \<open>
  Claim C3. When the handling of a message fails, in decoding, in validation or in the
  insert, no row is stored for it, the handler prints the cause and returns normally, no
  connection stays open, and the listener goes on with the messages that follow: what
  they store is what they would have stored had the failed message not been delivered. A
  failure before the insert changes nothing but the printed output.
\<close>

theorem on_message_isolates_failure:
  assumes "on_message_decode L msg = Inl e \<or>
           (\<exists>sd. on_message_decode L msg = Inr sd \<and> fst (insert_sensor_data d sd s) = Inl e)"
  shows "fst (on_message L d msg s) = Inr () \<and>
         rows (snd (on_message L d msg s)) = rows s \<and>
         open_conns (snd (on_message L d msg s)) = open_conns s \<and>
         (\<exists>printed. console (snd (on_message L d msg s)) =
             console s @ printed @ [if e = JSONDecodeError then LogDecodeError else LogProcessError e]) \<and>
         (on_message_decode L msg = Inl e \<longrightarrow>
            snd (on_message L d msg s) =
              s\<lparr>console := console s @ [if e = JSONDecodeError then LogDecodeError else LogProcessError e]\<rparr>) \<and>
         listener L ((d, msg) # ms) s = listener L ms (snd (on_message L d msg s)) \<and>
         fst (listener L ((d, msg) # ms) s) = Inr () \<and>
         map reading_of (rows (snd (listener L ((d, msg) # ms) s))) =
           map reading_of (rows (snd (listener L ms s)))"
proof -
  have r: "rows (snd (on_message L d msg s)) = rows s"
    using assms
  proof
    assume a: "on_message_decode L msg = Inl e"
    show ?thesis unfolding on_message_rows a by simp
  next
    assume "\<exists>sd. on_message_decode L msg = Inr sd \<and> fst (insert_sensor_data d sd s) = Inl e"
    then obtain sd where sd: "on_message_decode L msg = Inr sd"
      and f: "fst (insert_sensor_data d sd s) = Inl e" by blast
    show ?thesis unfolding on_message_rows sd using insert_rows_err[OF f] by simp
  qed
  have c: "\<exists>printed. console (snd (on_message L d msg s)) =
             console s @ printed @ [if e = JSONDecodeError then LogDecodeError else LogProcessError e]"
    using assms
  proof
    assume a: "on_message_decode L msg = Inl e"
    have "console (snd (on_message L d msg s)) =
        console s @ [] @ [if e = JSONDecodeError then LogDecodeError else LogProcessError e]"
      unfolding on_message_decode_fail[OF a] by simp
    then show ?thesis by (rule exI)
  next
    assume "\<exists>sd. on_message_decode L msg = Inr sd \<and> fst (insert_sensor_data d sd s) = Inl e"
    then obtain sd where sd: "on_message_decode L msg = Inr sd"
      and f: "fst (insert_sensor_data d sd s) = Inl e" by blast
    have k: "e \<noteq> JSONDecodeError" using f by (rule insert_error_kind)
    have "\<exists>printed. console (snd (insert_sensor_data d sd s)) = console s @ printed"
      by (simp add: insert_cases split: connect_outcome.split option.split)
    then obtain printed where p: "console (snd (insert_sensor_data d sd s)) = console s @ printed" ..
    have "console (snd (on_message L d msg s)) =
        console s @ printed @ [if e = JSONDecodeError then LogDecodeError else LogProcessError e]"
      unfolding on_message_insert_fail[OF sd f] using k p by simp
    then show ?thesis by (rule exI)
  qed
  have l: "map reading_of (rows (snd (listener L ((d, msg) # ms) s))) =
           map reading_of (rows (snd (listener L ms s)))"
    unfolding listener_step by (rule listener_readings) (simp add: r)
  have o: "on_message_decode L msg = Inl e \<longrightarrow>
            snd (on_message L d msg s) =
              s\<lparr>console := console s @ [if e = JSONDecodeError then LogDecodeError else LogProcessError e]\<rparr>"
  proof
    assume a: "on_message_decode L msg = Inl e"
    show "snd (on_message L d msg s) =
              s\<lparr>console := console s @ [if e = JSONDecodeError then LogDecodeError else LogProcessError e]\<rparr>"
      unfolding on_message_decode_fail[OF a] by simp
  qed
  note facts = on_message_returns[of L d msg s] r on_message_open_conns[of L d msg s] c o
      listener_step[of L d msg ms s] listener_returns[of L "(d, msg) # ms" s] l
  show ?thesis
    by (intro conjI) (rule facts)+
qed

theorem on_message_isolates_failure_witness:
  "on_message ex_lib healthy (Json ex_malformed) ex_sink =
     (Inr (), ex_sink\<lparr>console := console ex_sink @ [LogProcessError (ValidationError [(''temp_value'', Missing)])]\<rparr>) \<and>
   fst (on_message ex_lib unreachable (Json ex_payload) ex_sink) = Inr () \<and>
   rows (snd (on_message ex_lib unreachable (Json ex_payload) ex_sink)) = rows ex_sink \<and>
   map reading_of (rows (snd (listener ex_lib [(healthy, Json ex_malformed), (healthy, Json ex_payload)] ex_sink))) =
     map reading_of (rows ex_sink) @ [ex_reading]"
proof -
  note t1 = on_message_isolates_failure[where d = healthy and s = ex_sink
      and ms = "[(healthy, Json ex_payload)]", OF disjI1[OF ex_malformed_decode]]
  have h: "on_message_decode ex_lib (Json ex_payload) = Inl (HTTPException 500 ''Database connection failed'') \<or>
      (\<exists>sd. on_message_decode ex_lib (Json ex_payload) = Inr sd \<and>
         fst (insert_sensor_data unreachable sd ex_sink) = Inl (HTTPException 500 ''Database connection failed''))"
    using ex_payload_decode ex_insert_unreachable by (intro disjI2 exI[of _ ex_reading] conjI)
  note t2 = on_message_isolates_failure[where ms = "[]", OF h]
  have a: "on_message ex_lib healthy (Json ex_malformed) ex_sink =
     (Inr (), ex_sink\<lparr>console := console ex_sink @ [LogProcessError (ValidationError [(''temp_value'', Missing)])]\<rparr>)"
    using t1 ex_malformed_decode by (intro prod_eqI) simp_all
  have b: "fst (on_message ex_lib unreachable (Json ex_payload) ex_sink) = Inr ()"
    using t2 by (rule conjunct1)
  have c: "rows (snd (on_message ex_lib unreachable (Json ex_payload) ex_sink)) = rows ex_sink"
    using t2 by (rule conjunct1[OF conjunct2])
  have d: "map reading_of (rows (snd (listener ex_lib [(healthy, Json ex_malformed), (healthy, Json ex_payload)] ex_sink))) =
     map reading_of (rows ex_sink) @ [ex_reading]"
  proof -
    from t1 have "map reading_of (rows (snd (listener ex_lib [(healthy, Json ex_malformed), (healthy, Json ex_payload)] ex_sink))) =
        map reading_of (rows (snd (listener ex_lib [(healthy, Json ex_payload)] ex_sink)))"
      by (elim conjE)
    then show ?thesis using ex_listener_one by (rule trans)
  qed
  from a b c d show ?thesis by (intro conjI)
qed

text \<open>
  Claim C10, as the code has it. Both channels hand the reading they have validated to
  the same \<open>insert_sensor_data\<close>, but they do not read the timestamp alike: the
  message handler reads it with \<open>datetime.fromisoformat\<close> before validation, the
  endpoint leaves it to pydantic. For a JSON object whose timestamp is a string that the
  two read alike (to the same point in time, or both not at all), both channels accept it
  with the same reading or both reject it, they leave the same rows, and the row appended
  carries the four fields of that reading whatever the sink held before (only the
  identifier differs). The claim as stated is refuted by a reading whose timestamp is a
  number of seconds: the endpoint stores it, the message handler drops it.
\<close>

theorem same_payload_converges:
  assumes "map_of kw ''timestamp'' = Some (PStr ts)"
    and "parse_datetime L (PStr ts) = fromisoformat L ts"
  shows "(\<forall>r. on_message_decode L (Json (PDict kw)) = Inr r \<longleftrightarrow>
              body_SensorData L (Some (PDict kw)) = Inr r) \<and>
         rows (snd (on_message L d (Json (PDict kw)) s)) =
           rows (snd (submit_sensor_data L d (Some (PDict kw)) s)) \<and>
         map reading_of (drop (length (rows s)) (rows (snd (on_message L d (Json (PDict kw)) s)))) =
           map reading_of (drop (length (rows t)) (rows (snd (submit_sensor_data L d (Some (PDict kw)) t)))) \<and>
         (\<forall>r i. body_SensorData L (Some (PDict kw)) = Inr r \<and> fst (insert_sensor_data d r s) = Inr i \<longrightarrow>
              rows (snd (on_message L d (Json (PDict kw)) s)) = rows s @ [stored i r] \<and>
              rows (snd (submit_sensor_data L d (Some (PDict kw)) s)) = rows s @ [stored i r] \<and>
              reading_of (stored i r) = r)"
proof -
  have iff: "on_message_decode L (Json (PDict kw)) = Inr r \<longleftrightarrow>
      body_SensorData L (Some (PDict kw)) = Inr r" for r
    using assms by (rule same_payload)
  have same: "rows (snd (on_message L d (Json (PDict kw)) u)) =
      rows (snd (submit_sensor_data L d (Some (PDict kw)) u))" for u
    unfolding on_message_rows submit_rows_cases by (rule same_payload_cases[OF assms])
  have new: "map reading_of (drop (length (rows s)) (rows (snd (on_message L d (Json (PDict kw)) s)))) =
      map reading_of (drop (length (rows t)) (rows (snd (submit_sensor_data L d (Some (PDict kw)) t))))"
  proof (cases "body_SensorData L (Some (PDict kw))")
    case (Inl e)
    have "rows (snd (submit_sensor_data L d (Some (PDict kw)) u)) = rows u" for u
      unfolding submit_rows_cases Inl by simp
    then show ?thesis unfolding same by simp
  next
    case (Inr r)
    have "rows (snd (submit_sensor_data L d (Some (PDict kw)) u)) =
        rows (snd (insert_sensor_data d r u))" for u
      unfolding submit_rows_cases Inr by simp
    then show ?thesis unfolding same by (simp add: insert_new_rows_indep[of s d r t])
  qed
  have app: "rows (snd (on_message L d (Json (PDict kw)) s)) = rows s @ [stored i r] \<and>
      rows (snd (submit_sensor_data L d (Some (PDict kw)) s)) = rows s @ [stored i r] \<and>
      reading_of (stored i r) = r"
    if "body_SensorData L (Some (PDict kw)) = Inr r \<and> fst (insert_sensor_data d r s) = Inr i" for r i
  proof -
    from that have b: "body_SensorData L (Some (PDict kw)) = Inr r"
      and i: "fst (insert_sensor_data d r s) = Inr i" by simp_all
    have "rows (snd (submit_sensor_data L d (Some (PDict kw)) s)) = rows s @ [stored i r]"
      unfolding submit_rows[OF b] using insert_rows_ok[OF i] by simp
    then show ?thesis unfolding same by (simp add: reading_of_stored)
  qed
  from iff same[of s] new app show ?thesis by blast
qed

theorem same_payload_converges_witness:
  "rows (snd (on_message ex_lib healthy (Json ex_payload) empty_sink)) =
     rows (snd (submit_sensor_data ex_lib healthy (Some ex_payload) empty_sink)) \<and>
   rows (snd (on_message ex_lib healthy (Json ex_payload) empty_sink)) = [stored 1 ex_reading] \<and>
   map reading_of (drop (length (rows empty_sink))
       (rows (snd (on_message ex_lib healthy (Json ex_payload) empty_sink)))) =
     map reading_of (drop (length (rows ex_sink))
       (rows (snd (submit_sensor_data ex_lib healthy (Some ex_payload) ex_sink))))"
proof -
  have p: "ex_payload =
      PDict [(''sensor_id'', PStr ''S2''), (''device_id'', PStr ''D2''),
             (''timestamp'', PStr ''2025-10-22T10:00:02''), (''temp_value'', PFloat (Finite 19.5))]"
    by (simp add: ex_payload_def reading_json_def)
  have h1: "map_of [(''sensor_id'', PStr ''S2''), (''device_id'', PStr ''D2''),
             (''timestamp'', PStr ''2025-10-22T10:00:02''), (''temp_value'', PFloat (Finite 19.5))]
            ''timestamp'' = Some (PStr ''2025-10-22T10:00:02'')"
    by simp
  have h2: "parse_datetime ex_lib (PStr ''2025-10-22T10:00:02'') =
            fromisoformat ex_lib ''2025-10-22T10:00:02''"
    by (simp add: ex_lib_def)
  note t = same_payload_converges[where L = ex_lib and d = healthy and s = empty_sink
      and t = ex_sink, OF h1 h2, folded p]
  have i: "fst (insert_sensor_data healthy ex_reading empty_sink) = Inr 1"
    by (simp add: ex_insert_healthy empty_sink_def)
  from t have a: "rows (snd (on_message ex_lib healthy (Json ex_payload) empty_sink)) =
     rows (snd (submit_sensor_data ex_lib healthy (Some ex_payload) empty_sink))"
    by (elim conjE)
  from t have c: "map reading_of (drop (length (rows empty_sink))
       (rows (snd (on_message ex_lib healthy (Json ex_payload) empty_sink)))) =
     map reading_of (drop (length (rows ex_sink))
       (rows (snd (submit_sensor_data ex_lib healthy (Some ex_payload) ex_sink))))"
    by (elim conjE)
  from t have "\<forall>r i. body_SensorData ex_lib (Some ex_payload) = Inr r \<and>
        fst (insert_sensor_data healthy r empty_sink) = Inr i \<longrightarrow>
        rows (snd (on_message ex_lib healthy (Json ex_payload) empty_sink)) = rows empty_sink @ [stored i r] \<and>
        rows (snd (submit_sensor_data ex_lib healthy (Some ex_payload) empty_sink)) = rows empty_sink @ [stored i r] \<and>
        reading_of (stored i r) = r"
    by (elim conjE)
  from this[THEN spec, THEN spec, THEN mp, OF conjI[OF ex_payload_body i]]
  have b: "rows (snd (on_message ex_lib healthy (Json ex_payload) empty_sink)) = [stored 1 ex_reading]"
    by (simp add: empty_sink_def)
  from a b c show ?thesis by (intro conjI)
qed

theorem numeric_timestamp_diverges_counterexample:
  "on_message_decode ex_lib (Json ex_numeric) = Inl TypeError \<and>
   rows (snd (on_message ex_lib healthy (Json ex_numeric) empty_sink)) = [] \<and>
   body_SensorData ex_lib (Some ex_numeric) =
     Inr \<lparr>sensor_id = ''S1'', device_id = ''D1'', timestamp = 0, temp_value = Finite 20.5\<rparr> \<and>
   rows (snd (submit_sensor_data ex_lib healthy (Some ex_numeric) empty_sink)) =
     [\<lparr>sensor_id = ''S1'', device_id = ''D1'', timestamp = 0, temp_value = Finite 20.5, id' = 1\<rparr>]"
proof -
  have a: "on_message_decode ex_lib (Json ex_numeric) = Inl TypeError"
    by (simp add: on_message_decode_def ex_numeric_def)
  have b: "body_SensorData ex_lib (Some ex_numeric) =
     Inr \<lparr>sensor_id = ''S1'', device_id = ''D1'', timestamp = 0, temp_value = Finite 20.5\<rparr>"
    by (simp add: body_SensorData_def ex_numeric_def validation_defs)
  have c: "rows (snd (on_message ex_lib healthy (Json ex_numeric) empty_sink)) = []"
    unfolding on_message_rows a by (simp add: empty_sink_def)
  have d: "rows (snd (submit_sensor_data ex_lib healthy (Some ex_numeric) empty_sink)) =
     [\<lparr>sensor_id = ''S1'', device_id = ''D1'', timestamp = 0, temp_value = Finite 20.5, id' = 1\<rparr>]"
    unfolding submit_rows[OF b]
    by (simp add: insert_cases healthy_def empty_sink_def stored_def)
  from a c b d show ?thesis by (intro conjI)
qed

end
